theory Spec2Isabelle
  imports Main
begin

section \<open>The Packs pack\<close>

text \<open>
  An embedding of the formulas of \<^verbatim>\<open>src/packs/pack.ts\<close>: \<^verbatim>\<open>Pack\<close>, the sync tables
  \<^verbatim>\<open>Packs\<close> and \<^verbatim>\<open>MyPacks\<close> with their \<^verbatim>\<open>propertyOptions\<close>, the update of
  \<^verbatim>\<open>MyPacks\<close>, and \<^verbatim>\<open>SourceCode\<close>. An \<^verbatim>\<open>execute\<close> function becomes a function from
  its arguments and the context to a run: the list of what it did to the outside, in
  order, and either the error it threw or the value it returned. The awaited calls are
  taken one after the other, as the single thread of the host runs them; jobs that are
  started and joined later appear in the run where they are started. What the host does
  with an error afterwards (\<^verbatim>\<open>onError: handleError\<close>) is not part of a run.
\<close>

section \<open>JavaScript values\<close>

text \<open>
  The formulas work on decoded JSON: rows, response bodies and continuations. A JSON
  object is an association list in the order of \<^verbatim>\<open>Object.entries\<close>; the value
  \<^verbatim>\<open>undefined\<close> is \<open>None\<close> of \<open>json option\<close>. Numbers are the integers (Pack ids, page
  limits).
\<close>

datatype json =
    JNull
  | JBool bool
  | JNum int
  | JStr string
  | JArr "json list"
  | JObj "(string \<times> json) list"

type_synonym item = "(string \<times> json) list"

datatype error =
    TypeError
  | Error string
  | UserVisibleError string
  | ConfigurationError string

text \<open>The test of \<^verbatim>\<open>if (v)\<close> and \<^verbatim>\<open>!v\<close>.\<close>

fun truthy :: "json option \<Rightarrow> bool" where
  "truthy None = False"
| "truthy (Some JNull) = False"
| "truthy (Some (JBool b)) = b"
| "truthy (Some (JNum n)) = (n \<noteq> 0)"
| "truthy (Some (JStr s)) = (s \<noteq> [])"
| "truthy (Some (JArr xs)) = True"
| "truthy (Some (JObj fs)) = True"

text \<open>
  Reading a data property \<^verbatim>\<open>v.k\<close>, as the destructuring
  \<^verbatim>\<open>let { items, nextPageLink } = response.body\<close> does: a TypeError on \<^verbatim>\<open>null\<close>,
  \<^verbatim>\<open>undefined\<close> on a value that has no such property.
\<close>

fun get_prop :: "json \<Rightarrow> string \<Rightarrow> error + json option" where
  "get_prop JNull k = Inl TypeError"
| "get_prop (JObj fs) k = Inr (map_of fs k)"
| "get_prop v k = Inr None"

text \<open>
  The elements \<^verbatim>\<open>for (let x of v)\<close> visits. The listings and the rows hold arrays
  here; every value that is not iterable (\<^verbatim>\<open>undefined\<close>, \<^verbatim>\<open>null\<close>, a number, a
  boolean, a plain object) throws a TypeError. The model covers arrays only: iteration of
  a string by character is not modelled and is given the same branch.
\<close>

fun for_of :: "json option \<Rightarrow> error + json list" where
  "for_of (Some (JArr xs)) = Inr xs"
| "for_of v = Inl TypeError"

text \<open>
  \<^verbatim>\<open>Array.prototype.includes\<close> compares with SameValueZero: primitives by value,
  arrays and objects by identity. The previous and the new value of a row are decoded
  separately, so an array or object of the one is never identical to one of the other.
\<close>

fun same_value_zero :: "json \<Rightarrow> json \<Rightarrow> bool" where
  "same_value_zero (JArr xs) w = False"
| "same_value_zero (JObj fs) w = False"
| "same_value_zero v w = (v = w)"

fun array_includes :: "json option \<Rightarrow> json \<Rightarrow> error + bool" where
  "array_includes (Some (JArr ys)) x = Inr (list_ex (same_value_zero x) ys)"
| "array_includes v x = Inl TypeError"

text \<open>
  \<^verbatim>\<open>String(v)\<close>, for the URL of the final request. An integer is written in decimal,
  the digits collected from the last one.
\<close>

definition digit :: "nat \<Rightarrow> char" where
  "digit d = ''0123456789'' ! d"

function decimal :: "nat \<Rightarrow> string \<Rightarrow> string" where
  "decimal n acc =
     (if n < 10 then digit n # acc else decimal (n div 10) (digit (n mod 10) # acc))"
  by pat_completeness auto
termination
  by (relation "measure fst") auto

definition Number_toString :: "int \<Rightarrow> string" where
  "Number_toString i =
     (if i < 0 then CHR ''-'' # decimal (nat (- i)) [] else decimal (nat i) [])"

fun join :: "string \<Rightarrow> string list \<Rightarrow> string" where
  "join sep [] = []"
| "join sep [s] = s"
| "join sep (s # t # ts) = s @ sep @ join sep (t # ts)"

fun String_json :: "json \<Rightarrow> string" where
  "String_json JNull = ''null''"
| "String_json (JBool b) = (if b then ''true'' else ''false'')"
| "String_json (JNum n) = Number_toString n"
| "String_json (JStr s) = s"
| "String_json (JArr xs) =
     join '','' (map (\<lambda>x. if x = JNull then [] else String_json x) xs)"
| "String_json (JObj fs) = ''[object Object]''"

definition String :: "json option \<Rightarrow> string" where
  "String v = (case v of None \<Rightarrow> ''undefined'' | Some j \<Rightarrow> String_json j)"

section \<open>The host and the collaborators\<close>

text \<open>
  \<open>context\<close> is the execution context the host passes to every formula:
  \<^verbatim>\<open>context.invocationLocation.protocolAndHost\<close>, \<^verbatim>\<open>context.sync.continuation\<close>
  and \<^verbatim>\<open>context.propertyName\<close>. A continuation is a mapping.
\<close>

type_synonym continuation = "(string \<times> json) list"

record "context" =
  protocolAndHost :: string
  sync_continuation :: "continuation option"
  propertyName :: string

text \<open>The argument of \<^verbatim>\<open>context.fetcher.fetch\<close>; \<open>body\<close> is the value given to
  \<^verbatim>\<open>JSON.stringify\<close>.\<close>

record request =
  "method" :: string
  url :: json
  headers :: "(string \<times> string) list"
  body :: "json option"
  disableAuthentication :: bool

definition GET :: "json \<Rightarrow> request" where
  "GET u = \<lparr>method = ''GET'', url = u, headers = [], body = None,
            disableAuthentication = False\<rparr>"

text \<open>
  One entry of the registry \<^verbatim>\<open>MetadataTypes\<close>. The callback receives the page and
  changes its items in place; here it returns the page as it leaves it, together with
  the error it rejects with, if it does. The jobs of a page run concurrently; the model
  runs them in the order of the keys.
\<close>

record settings =
  name :: string
  callback :: "context \<Rightarrow> json list \<Rightarrow> json list \<times> error option"

record version_info =
  packVersion :: string

record source_file =
  file_url :: json

text \<open>
  Everything the formulas call that is not in \<^verbatim>\<open>pack.ts\<close>: the functions of the SDK
  (\<^verbatim>\<open>coda.joinUrl\<close>, \<^verbatim>\<open>coda.withQueryParams\<close>), \<^verbatim>\<open>escape-html\<close>, the fetcher of the
  context (the body of the response, or the error it throws), the registry of
  \<^verbatim>\<open>./constants\<close> and the helpers of \<^verbatim>\<open>./helpers\<close>. They are parameters of the model.
  \<open>removeCategory\<close> and \<open>addCategory\<close> give the error the job rejects with, if it does;
  \<open>formatItem\<close> and \<open>unformatItem\<close> change an item in place and are given as the item
  they leave.
\<close>

record env =
  joinUrl :: "string list \<Rightarrow> string"
  withQueryParams :: "string \<Rightarrow> (string \<times> json) list \<Rightarrow> string"
  escape :: "json \<Rightarrow> string"
  fetch :: "request \<Rightarrow> error + json"
  MetadataTypes :: "(string \<times> settings) list"
  getPackId :: "context \<Rightarrow> string \<Rightarrow> error + json"
  formatItem :: "context \<Rightarrow> json \<Rightarrow> json"
  unformatItem :: "item \<Rightarrow> item"
  getVersions :: "context \<Rightarrow> json \<Rightarrow> error + version_info list"
  getFiles :: "context \<Rightarrow> json \<Rightarrow> string \<Rightarrow> error + source_file list option"
  getCategories :: "context \<Rightarrow> error + json list"
  removeCategory :: "context \<Rightarrow> json option \<Rightarrow> json \<Rightarrow> error option"
  addCategory :: "context \<Rightarrow> json option \<Rightarrow> json \<Rightarrow> error option"

text \<open>
  What a run does to the outside, in order: a request of the formula's own, the call
  \<^verbatim>\<open>removeCategory(context, packId, category)\<close> or \<^verbatim>\<open>addCategory(...)\<close> that starts a
  category job, the call of the callback of a metadata key, a call of a helper that
  works on the network.
\<close>

datatype job =
    RemoveCategory "json option" json
  | AddCategory "json option" json

datatype event =
    Fetch request
  | Start job
  | Callback string
  | GetCategories
  | GetVersions json
  | GetFiles json string

text \<open>
  Modelled from the spec: \<^verbatim>\<open>getMetdataSettings\<close> of \<^verbatim>\<open>./helpers\<close> is not among the
  sources. The spec has the registry "statically defined, looked up by key; unknown key
  fails with ConfigurationError".
\<close>

definition getMetdataSettings :: "env \<Rightarrow> string \<Rightarrow> error + settings" where
  "getMetdataSettings E key =
     (case map_of (MetadataTypes E) key of
        None \<Rightarrow> Inl (ConfigurationError key)
      | Some s \<Rightarrow> Inr s)"

section \<open>The enrichment jobs of a page\<close>

text \<open>
  \<^verbatim>\<open>for (let key of metadata) { let settings = getMetdataSettings(key);
  jobs.push(settings.callback(context, items)); }\<close>
  The loop returns the events, the items as the jobs leave them and the outcome of every
  job, or stops at the key whose lookup throws.
\<close>

fun start_jobs ::
  "env \<Rightarrow> context \<Rightarrow> string list \<Rightarrow> json list \<Rightarrow>
   event list \<times> (error + json list \<times> error option list)" where
  "start_jobs E ctx [] items = ([], Inr (items, []))"
| "start_jobs E ctx (key # keys) items =
     (case getMetdataSettings E key of
        Inl e \<Rightarrow> ([], Inl e)
      | Inr s \<Rightarrow>
          (case callback s ctx items of (items', outcome) \<Rightarrow>
             (case start_jobs E ctx keys items' of
                (evs, Inl e) \<Rightarrow> (Callback key # evs, Inl e)
              | (evs, Inr (items'', outcomes)) \<Rightarrow>
                  (Callback key # evs, Inr (items'', outcome # outcomes)))))"

text \<open>\<^verbatim>\<open>Promise.allSettled\<close> waits for every job and never rejects.\<close>

definition allSettled :: "error option list \<Rightarrow> error option" where
  "allSettled outcomes = None"

text \<open>\<^verbatim>\<open>Promise.all\<close> rejects when a job rejects, here with the error of the first
  job of the list that does.\<close>

fun Promise_all :: "error option list \<Rightarrow> error option" where
  "Promise_all [] = None"
| "Promise_all (None # outcomes) = Promise_all outcomes"
| "Promise_all (Some e # outcomes) = Some e"

section \<open>The formula Pack\<close>

text \<open>The test \<^verbatim>\<open>!items?.length\<close>.\<close>

fun no_length :: "json option \<Rightarrow> bool" where
  "no_length None = True"
| "no_length (Some JNull) = True"
| "no_length (Some (JArr xs)) = (xs = [])"
| "no_length (Some (JStr s)) = (s = [])"
| "no_length (Some (JObj fs)) = (\<not> truthy (map_of fs ''length''))"
| "no_length (Some v) = True"

text \<open>
  \<^verbatim>\<open>item\<close> is \<^verbatim>\<open>items[0]\<close>, which \<^verbatim>\<open>formatItem\<close> and the jobs change in place; the
  formula returns it after the jobs have settled. Items that pass the test and are not an
  array (a string, an object with a length) are outside the model and get the branch of
  a TypeError.
\<close>

definition Pack_request :: "env \<Rightarrow> context \<Rightarrow> json \<Rightarrow> request" where
  "Pack_request E ctx packId =
     (let baseUrl = joinUrl E [protocolAndHost ctx, ''apis/v1/packs/listings'']
      in GET (JStr (withQueryParams E baseUrl [(''packIds'', packId)])))"

definition Pack :: "env \<Rightarrow> string \<Rightarrow> context \<Rightarrow> event list \<times> (error + json)" where
  "Pack E packIdOrUrl ctx =
     (case getPackId E ctx packIdOrUrl of
        Inl e \<Rightarrow> ([], Inl e)
      | Inr packId \<Rightarrow>
          let req = Pack_request E ctx packId
          in (case fetch E req of
                Inl e \<Rightarrow> ([Fetch req], Inl e)
              | Inr response_body \<Rightarrow>
                  (case get_prop response_body ''items'' of
                     Inl e \<Rightarrow> ([Fetch req], Inl e)
                   | Inr items \<Rightarrow>
                       if no_length items
                       then ([Fetch req],
                             Inl (UserVisibleError (''Pack not found: '' @ packIdOrUrl)))
                       else (case items of
                               Some (JArr (item # rest)) \<Rightarrow>
                                 (let item' = formatItem E ctx item;
                                      metadata = map fst (MetadataTypes E)
                                  in (case start_jobs E ctx metadata (item' # rest) of
                                        (evs, Inl e) \<Rightarrow> (Fetch req # evs, Inl e)
                                      | (evs, Inr (items', outcomes)) \<Rightarrow>
                                          (case allSettled outcomes of
                                             Some e \<Rightarrow> (Fetch req # evs, Inl e)
                                           | None \<Rightarrow>
                                               (Fetch req # evs,
                                                Inr (case items' of
                                                       [] \<Rightarrow> item'
                                                     | i # _ \<Rightarrow> i)))))
                             | _ \<Rightarrow> ([Fetch req], Inl TypeError)))))"

section \<open>The sync table Packs\<close>

text \<open>The two tables have the same \<^verbatim>\<open>propertyOptions\<close>.\<close>

definition propertyOptions :: "env \<Rightarrow> context \<Rightarrow> event list \<times> (error + json list)" where
  "propertyOptions E ctx =
     (if propertyName ctx = ''categories''
      then ([GetCategories], getCategories E ctx)
      else ([], Inl (UserVisibleError (''Unknown property: '' @ propertyName ctx))))"

record sync_result =
  result :: "json list"
  continuation :: "continuation option"

text \<open>\<^verbatim>\<open>context.sync.continuation?.url\<close>\<close>

definition continuation_url :: "context \<Rightarrow> json option" where
  "continuation_url ctx =
     (case sync_continuation ctx of None \<Rightarrow> None | Some c \<Rightarrow> map_of c ''url'')"

text \<open>\<^verbatim>\<open>if (nextPageLink) { continuation = { url: nextPageLink }; }\<close>\<close>

definition next_continuation :: "json option \<Rightarrow> continuation option" where
  "next_continuation nextPageLink =
     (case nextPageLink of
        None \<Rightarrow> None
      | Some link \<Rightarrow> if truthy (Some link) then Some [(''url'', link)] else None)"

text \<open>
  The arguments are \<^verbatim>\<open>includePublished\<close>, \<^verbatim>\<open>includeWorkspace\<close>,
  \<^verbatim>\<open>includePrivate\<close> and the optional \<^verbatim>\<open>metdata\<close>, whose default is the empty list.
\<close>

definition listings_url :: "env \<Rightarrow> bool \<Rightarrow> bool \<Rightarrow> bool \<Rightarrow> context \<Rightarrow> string" where
  "listings_url E includePublished includeWorkspace includePrivate ctx =
     (let baseUrl = joinUrl E [protocolAndHost ctx, ''apis/v1/packs/listings'']
      in withQueryParams E baseUrl
           [(''excludePublicPacks'', JBool (\<not> includePublished)),
            (''excludeWorkspaceAcls'', JBool (\<not> includeWorkspace)),
            (''excludeIndividualAcls'', JBool (\<not> includePrivate)),
            (''limit'', JNum 20)])"

text \<open>\<^verbatim>\<open>let url = context.sync.continuation?.url as string; if (!url) { ... }\<close>\<close>

definition SyncPacks_url :: "env \<Rightarrow> bool \<Rightarrow> bool \<Rightarrow> bool \<Rightarrow> context \<Rightarrow> json" where
  "SyncPacks_url E includePublished includeWorkspace includePrivate ctx =
     (case continuation_url ctx of
        None \<Rightarrow> JStr (listings_url E includePublished includeWorkspace includePrivate ctx)
      | Some u \<Rightarrow>
          if \<not> truthy (Some u)
          then JStr (listings_url E includePublished includeWorkspace includePrivate ctx)
          else u)"

definition SyncPacks ::
  "env \<Rightarrow> bool \<Rightarrow> bool \<Rightarrow> bool \<Rightarrow> string list option \<Rightarrow> context \<Rightarrow>
   event list \<times> (error + sync_result)" where
  "SyncPacks E includePublished includeWorkspace includePrivate metdata ctx =
     (let metadata = (case metdata of None \<Rightarrow> [] | Some keys \<Rightarrow> keys);
          req = GET (SyncPacks_url E includePublished includeWorkspace includePrivate ctx)
      in (case fetch E req of
            Inl e \<Rightarrow> ([Fetch req], Inl e)
          | Inr response_body \<Rightarrow>
              (case get_prop response_body ''items'' of
                 Inl e \<Rightarrow> ([Fetch req], Inl e)
               | Inr items \<Rightarrow>
                   (case get_prop response_body ''nextPageLink'' of
                      Inl e \<Rightarrow> ([Fetch req], Inl e)
                    | Inr nextPageLink \<Rightarrow>
                        (case for_of items of
                           Inl e \<Rightarrow> ([Fetch req], Inl e)
                         | Inr its \<Rightarrow>
                             (case start_jobs E ctx metadata (map (formatItem E ctx) its) of
                                (evs, Inl e) \<Rightarrow> (Fetch req # evs, Inl e)
                              | (evs, Inr (items', outcomes)) \<Rightarrow>
                                  (case allSettled outcomes of
                                     Some e \<Rightarrow> (Fetch req # evs, Inl e)
                                   | None \<Rightarrow>
                                       (Fetch req # evs,
                                        Inr \<lparr>result = items',
                                             continuation =
                                               next_continuation nextPageLink\<rparr>))))))))"

section \<open>The sync table MyPacks\<close>




text \<open>
  One pending edit of a row: \<^verbatim>\<open>update.previousValue\<close>, \<^verbatim>\<open>update.newValue\<close> and
  \<^verbatim>\<open>update.updatedFields\<close>.
\<close>

record update =
  previousValue :: item
  newValue :: item
  updatedFields :: "string list"

text \<open>
  \<^verbatim>\<open>for (let category of xs) { if (!other.includes(category)) { jobs.push(mk(category)); } }\<close>
  The call that makes the job starts it. The loop gives the jobs it started and the
  error that stopped it, if one did.
\<close>

fun push_jobs :: "(json \<Rightarrow> job) \<Rightarrow> json option \<Rightarrow> json list \<Rightarrow> job list \<times> error option" where
  "push_jobs mk other [] = ([], None)"
| "push_jobs mk other (category # cs) =
     (case array_includes other category of
        Inl e \<Rightarrow> ([], Some e)
      | Inr found \<Rightarrow>
          (case push_jobs mk other cs of
             (jobs, err) \<Rightarrow> (if found then jobs else mk category # jobs, err)))"

definition start_category_jobs :: "update \<Rightarrow> job list \<times> error option" where
  "start_category_jobs update =
     (let packId = map_of (newValue update) ''packId'';
          previous = map_of (previousValue update) ''categories'';
          new = map_of (newValue update) ''categories''
      in (case for_of previous of
            Inl e \<Rightarrow> ([], Some e)
          | Inr prev \<Rightarrow>
              (case push_jobs (RemoveCategory packId) new prev of
                 (removals, Some e) \<Rightarrow> (removals, Some e)
               | (removals, None) \<Rightarrow>
                   (case for_of new of
                      Inl e \<Rightarrow> (removals, Some e)
                    | Inr nw \<Rightarrow>
                        (case push_jobs (AddCategory packId) previous nw of
                           (additions, err) \<Rightarrow> (removals @ additions, err))))))"

fun run_job :: "env \<Rightarrow> context \<Rightarrow> job \<Rightarrow> error option" where
  "run_job E ctx (RemoveCategory packId category) = removeCategory E ctx packId category"
| "run_job E ctx (AddCategory packId category) = addCategory E ctx packId category"

text \<open>
  \<^verbatim>\<open>if (update.updatedFields.includes("categories")) { ...; await Promise.all(jobs); }\<close>
  gives the jobs started and the error thrown, if one was.
\<close>

definition update_categories :: "env \<Rightarrow> context \<Rightarrow> update \<Rightarrow> job list \<times> error option" where
  "update_categories E ctx update =
     (if ''categories'' \<in> set (updatedFields update)
      then (case start_category_jobs update of
              (jobs, Some e) \<Rightarrow> (jobs, Some e)
            | (jobs, None) \<Rightarrow> (jobs, Promise_all (map (run_job E ctx) jobs)))
      else ([], None))"

text \<open>
  \<^verbatim>\<open>Object.fromEntries\<close>: a later entry with a key already there replaces its value.
  (JavaScript lists integer-like keys first; the fields of a row are identifiers.)
\<close>

fun set_entry :: "item \<Rightarrow> string \<Rightarrow> json \<Rightarrow> item" where
  "set_entry [] k v = [(k, v)]"
| "set_entry ((k', v') # fs) k v =
     (if k' = k then (k', v) # fs else (k', v') # set_entry fs k v)"

definition fromEntries :: "(string \<times> json) list \<Rightarrow> item" where
  "fromEntries es = foldl (\<lambda>obj (k, v). set_entry obj k v) [] es"

text \<open>
  \<^verbatim>\<open>pack\<close> is \<^verbatim>\<open>update.newValue\<close> itself: \<^verbatim>\<open>unformatItem(pack)\<close> changes it in place, and
  the body and the URL of the request are read from it afterwards. (\<^verbatim>\<open>coda.joinUrl\<close>
  throws on an empty part, which the parameter \<open>joinUrl\<close> does not show: what is said
  below of an update that succeeds is said for a host and a Pack id that are not empty.)
\<close>

definition patch_request :: "env \<Rightarrow> context \<Rightarrow> update \<Rightarrow> request" where
  "patch_request E ctx update =
     (let host = protocolAndHost ctx;
          pack = unformatItem E (newValue update);
          body = fromEntries
                   (filter (\<lambda>(key, value). key \<in> set (updatedFields update)) pack)
      in \<lparr>method = ''PATCH'',
          url = JStr (joinUrl E [host, ''apis/v1/packs'', String (map_of pack ''packId'')]),
          headers = [(''Content-Type'', ''application/json'')],
          body = Some (JObj body),
          disableAuthentication = False\<rparr>)"

text \<open>
  An empty batch makes \<^verbatim>\<open>updates[0]\<close> undefined, and reading \<^verbatim>\<open>update.newValue\<close>
  throws. The result is \<^verbatim>\<open>{ result: [final] }\<close>, with no continuation.
\<close>

definition executeUpdate ::
  "env \<Rightarrow> update list \<Rightarrow> context \<Rightarrow> event list \<times> (error + sync_result)" where
  "executeUpdate E updates ctx =
     (case updates of
        [] \<Rightarrow> ([], Inl TypeError)
      | update # _ \<Rightarrow>
          (case update_categories E ctx update of
             (jobs, Some e) \<Rightarrow> (map Start jobs, Inl e)
           | (jobs, None) \<Rightarrow>
               (let req = patch_request E ctx update
                in (case fetch E req of
                      Inl e \<Rightarrow> (map Start jobs @ [Fetch req], Inl e)
                    | Inr final \<Rightarrow>
                        (map Start jobs @ [Fetch req],
                         Inr \<lparr>result = [formatItem E ctx final],
                              continuation = None\<rparr>)))))"

section \<open>The formula SourceCode\<close>

text \<open>
  The part after the version is known:
  \<^verbatim>\<open>let files = await getFiles(context, packId, version); ...\<close>
\<close>

definition file_request :: "source_file \<Rightarrow> request" where
  "file_request file =
     \<lparr>method = ''GET'', url = file_url file, headers = [], body = None,
      disableAuthentication = True\<rparr>"

definition SourceCode_files ::
  "env \<Rightarrow> context \<Rightarrow> json \<Rightarrow> string \<Rightarrow> event list \<times> (error + string)" where
  "SourceCode_files E ctx packId version =
     (case getFiles E ctx packId version of
        Inl e \<Rightarrow> ([GetFiles packId version], Inl e)
      | Inr None \<Rightarrow> ([GetFiles packId version], Inl (Error ''No source code found.''))
      | Inr (Some []) \<Rightarrow> ([GetFiles packId version], Inl (Error ''No source code found.''))
      | Inr (Some (file # _)) \<Rightarrow>
          (let req = file_request file
           in (case fetch E req of
                 Inl e \<Rightarrow> ([GetFiles packId version, Fetch req], Inl e)
               | Inr code \<Rightarrow>
                   ([GetFiles packId version, Fetch req],
                    Inr (''<pre>'' @ escape E code @ ''</pre>'')))))"

text \<open>
  \<^verbatim>\<open>let versions = await getVersions(context, packId); version = versions[0].packVersion;\<close>
  Reading \<^verbatim>\<open>versions[0].packVersion\<close> throws on an empty listing.
\<close>

definition SourceCode_latest ::
  "env \<Rightarrow> context \<Rightarrow> json \<Rightarrow> event list \<times> (error + string)" where
  "SourceCode_latest E ctx packId =
     (case getVersions E ctx packId of
        Inl e \<Rightarrow> ([GetVersions packId], Inl e)
      | Inr [] \<Rightarrow> ([GetVersions packId], Inl TypeError)
      | Inr (v # _) \<Rightarrow>
          (case SourceCode_files E ctx packId (packVersion v) of
             (evs, r) \<Rightarrow> (GetVersions packId # evs, r)))"

text \<open>
  The optional argument \<^verbatim>\<open>version\<close> is a string; \<^verbatim>\<open>!version\<close> holds when it is absent
  or empty.
\<close>

definition SourceCode ::
  "env \<Rightarrow> string \<Rightarrow> string option \<Rightarrow> context \<Rightarrow> event list \<times> (error + string)" where
  "SourceCode E packIdOrUrl version ctx =
     (case getPackId E ctx packIdOrUrl of
        Inl e \<Rightarrow> ([], Inl e)
      | Inr packId \<Rightarrow>
          (case version of
             None \<Rightarrow> SourceCode_latest E ctx packId
           | Some v \<Rightarrow>
               if v = [] then SourceCode_latest E ctx packId
               else SourceCode_files E ctx packId v))"

section \<open>Reading a run\<close>

text \<open>The requests that the formula itself issued.\<close>

fun is_Fetch :: "event \<Rightarrow> bool" where
  "is_Fetch (Fetch req) = True"
| "is_Fetch e = False"

section \<open>A test environment\<close>

text \<open>
  A small instance of the collaborators, on which the statements below are run: a server
  with a listing of two pages, a registry with one handler that attaches a field and one
  that always fails, and stand-ins for the helpers.
\<close>

fun escape_char :: "char \<Rightarrow> string" where
  "escape_char c =
     (if c = CHR ''&'' then ''&amp;''
      else if c = CHR ''<'' then ''&lt;''
      else if c = CHR ''>'' then ''&gt;''
      else if c = CHR 0x22 then ''&quot;''
      else if c = CHR 0x27 then ''&#39;''
      else [c])"

definition test_withQueryParams :: "string \<Rightarrow> (string \<times> json) list \<Rightarrow> string" where
  "test_withQueryParams u ps =
     u @ ''?'' @ join ''&'' (map (\<lambda>(k, v). k @ ''='' @ String_json v) ps)"

definition pack1 :: json where
  "pack1 = JObj [(''packId'', JNum 1), (''name'', JStr ''One'')]"

definition pack2 :: json where
  "pack2 = JObj [(''packId'', JNum 2), (''name'', JStr ''Two'')]"

definition pack3 :: json where
  "pack3 = JObj [(''packId'', JNum 3), (''name'', JStr ''Three'')]"

definition test_fetch :: "request \<Rightarrow> error + json" where
  "test_fetch req =
     (if method req = ''PATCH''
      then Inr (JObj [(''packId'', JNum 7), (''name'', JStr ''Seven'')])
      else if url req = JStr ''page2''
      then Inr (JObj [(''items'', JArr [pack3])])
      else if url req = JStr ''file1''
      then Inr (JStr ''if (a < b) {}'')
      else if url req = JStr ''https://coda.io/apis/v1/packs/listings?packIds=0''
      then Inr (JObj [(''items'', JArr [])])
      else Inr (JObj [(''items'', JArr [pack1, pack2]), (''nextPageLink'', JStr ''page2'')]))"

definition add_field :: "string \<Rightarrow> json \<Rightarrow> json \<Rightarrow> json" where
  "add_field k v j = (case j of JObj fs \<Rightarrow> JObj (set_entry fs k v) | _ \<Rightarrow> j)"

definition test_registry :: "(string \<times> settings) list" where
  "test_registry =
     [(''versions'',
       \<lparr>name = ''Versions'',
        callback = (\<lambda>ctx items. (map (add_field ''versions'' (JArr [])) items, None))\<rparr>),
      (''files'',
       \<lparr>name = ''Files'',
        callback = (\<lambda>ctx items. (items, Some (Error ''files unavailable'')))\<rparr>)]"

definition test_env :: env where
  "test_env =
     \<lparr>joinUrl = join ''/'',
      withQueryParams = test_withQueryParams,
      escape = (\<lambda>code. concat (map escape_char (String_json code))),
      fetch = test_fetch,
      MetadataTypes = test_registry,
      getPackId = (\<lambda>ctx s. if s = [] then Inl (UserVisibleError ''Invalid Pack'') else Inr (JStr s)),
      formatItem = (\<lambda>ctx. add_field ''formatted'' (JBool True)),
      unformatItem = filter (\<lambda>(k, v). k \<noteq> ''formatted''),
      getVersions = (\<lambda>ctx packId. Inr [\<lparr>packVersion = ''2.0''\<rparr>, \<lparr>packVersion = ''1.0''\<rparr>]),
      getFiles = (\<lambda>ctx packId v.
                    if v = ''2.0''
                    then Inr (Some [\<lparr>file_url = JStr ''file1''\<rparr>, \<lparr>file_url = JStr ''file2''\<rparr>])
                    else Inr (Some [])),
      getCategories = (\<lambda>ctx. Inr [JStr ''A'', JStr ''B'', JStr ''C'']),
      removeCategory = (\<lambda>ctx packId category. None),
      addCategory = (\<lambda>ctx packId category. None)\<rparr>"

text \<open>The same, with a server that refuses to remove category A.\<close>

definition test_env_failing_removal :: env where
  "test_env_failing_removal =
     test_env\<lparr>removeCategory :=
       (\<lambda>ctx packId category.
          if category = JStr ''A'' then Some (Error ''remove failed'') else None)\<rparr>"

definition test_context :: "context" where
  "test_context =
     \<lparr>protocolAndHost = ''https://coda.io'', sync_continuation = None,
      propertyName = ''categories''\<rparr>"

text \<open>The row of Pack 7 with categories A and B is edited to have B and C.\<close>

definition test_update :: update where
  "test_update =
     \<lparr>previousValue = [(''packId'', JNum 7), (''name'', JStr ''Seven''),
                       (''categories'', JArr [JStr ''A'', JStr ''B''])],
      newValue = [(''packId'', JNum 7), (''name'', JStr ''Seven''),
                  (''categories'', JArr [JStr ''B'', JStr ''C''])],
      updatedFields = [''categories'']\<rparr>"





definition on_page2 :: "context" where
  "on_page2 = test_context\<lparr>sync_continuation := Some [(''url'', JStr ''page2'')]\<rparr>"

section \<open>Facts about the loops and the runs\<close>


lemma start_jobs_no_Fetch: "filter is_Fetch (fst (start_jobs E ctx keys items)) = []"
proof (induction keys arbitrary: items)
  case Nil
  then show ?case by simp
next
  case (Cons k ks)
  show ?case
  proof (cases "getMetdataSettings E k")
    case (Inl e)
    then show ?thesis by simp
  next
    case (Inr s)
    obtain its out where c: "callback s ctx items = (its, out)" by (cases "callback s ctx items")
    obtain evs r where r: "start_jobs E ctx ks its = (evs, r)" by (cases "start_jobs E ctx ks its")
    from Cons.IH [of its] r have "filter is_Fetch evs = []" by simp
    with Inr c r show ?thesis by (cases r) (auto split: prod.splits)
  qed
qed

lemma SyncPacks_events:
  "\<exists>evs. fst (SyncPacks E p w i md ctx) = Fetch (GET (SyncPacks_url E p w i ctx)) # evs \<and>
         filter is_Fetch evs = []"
proof -
  have "\<And>ks its evs r. start_jobs E ctx ks its = (evs, r) \<Longrightarrow> filter is_Fetch evs = []"
    using start_jobs_no_Fetch by (metis fst_conv)
  then show ?thesis
    by (auto simp: SyncPacks_def Let_def allSettled_def split: sum.splits prod.splits)
qed

lemma get_prop_other: "get_prop v k = Inr x \<Longrightarrow> \<exists>y. get_prop v k' = Inr y"
  by (cases v) auto

lemma SyncPacks_page:
  assumes "fetch E (GET (SyncPacks_url E p w i ctx)) = Inr response_body"
    and "get_prop response_body ''items'' = Inr (Some (JArr its))"
    and "get_prop response_body ''nextPageLink'' = Inr nextPageLink"
  shows "SyncPacks E p w i (Some keys) ctx =
     (Fetch (GET (SyncPacks_url E p w i ctx)) #
        fst (start_jobs E ctx keys (map (formatItem E ctx) its)),
      case snd (start_jobs E ctx keys (map (formatItem E ctx) its)) of
        Inl e \<Rightarrow> Inl e
      | Inr (items', outcomes) \<Rightarrow>
          Inr \<lparr>result = items', continuation = next_continuation nextPageLink\<rparr>)"
  using assms
  by (simp add: SyncPacks_def Let_def allSettled_def split: prod.splits sum.splits)

lemma push_jobs_array:
  "push_jobs mk (Some (JArr ys)) cs =
     (map mk (filter (\<lambda>c. \<not> list_ex (same_value_zero c) ys) cs), None)"
  by (induction cs) auto

lemma start_category_jobs_arrays:
  assumes "map_of (previousValue u) ''categories'' = Some (JArr prev)"
    and "map_of (newValue u) ''categories'' = Some (JArr nw)"
  shows "start_category_jobs u =
     (map (RemoveCategory (map_of (newValue u) ''packId''))
        (filter (\<lambda>c. \<not> list_ex (same_value_zero c) nw) prev) @
      map (AddCategory (map_of (newValue u) ''packId''))
        (filter (\<lambda>c. \<not> list_ex (same_value_zero c) prev) nw), None)"
  using assms by (simp add: start_category_jobs_def Let_def push_jobs_array)

lemma update_categories_arrays:
  assumes "''categories'' \<in> set (updatedFields u)"
    and "map_of (previousValue u) ''categories'' = Some (JArr previous)"
    and "map_of (newValue u) ''categories'' = Some (JArr new)"
    and "jobs =
      map (RemoveCategory (map_of (newValue u) ''packId''))
        (filter (\<lambda>c. \<not> list_ex (same_value_zero c) new) previous) @
      map (AddCategory (map_of (newValue u) ''packId''))
        (filter (\<lambda>c. \<not> list_ex (same_value_zero c) previous) new)"
  shows "update_categories E ctx u = (jobs, Promise_all (map (run_job E ctx) jobs))"
  using assms by (simp add: update_categories_def start_category_jobs_arrays)

lemma Promise_all_map_Some:
  "Promise_all (map f xs) = Some e \<Longrightarrow> \<exists>x\<in>set xs. f x = Some e"
proof (induction xs)
  case Nil
  then show ?case by simp
next
  case (Cons x xs)
  then show ?case by (cases "f x") auto
qed

lemma Promise_all_map_None:
  "Promise_all (map f xs) = None \<longleftrightarrow> (\<forall>x\<in>set xs. f x = None)"
proof (induction xs)
  case Nil
  then show ?case by simp
next
  case (Cons x xs)
  then show ?case by (cases "f x") auto
qed

lemma executeUpdate_run:
  "executeUpdate E (u # us) ctx =
     (case update_categories E ctx u of
        (jobs, Some e) \<Rightarrow> (map Start jobs, Inl e)
      | (jobs, None) \<Rightarrow>
          (map Start jobs @ [Fetch (patch_request E ctx u)],
           case fetch E (patch_request E ctx u) of
             Inl e \<Rightarrow> Inl e
           | Inr final \<Rightarrow> Inr \<lparr>result = [formatItem E ctx final], continuation = None\<rparr>))"
  by (simp add: executeUpdate_def Let_def split: prod.splits option.splits sum.splits)

section \<open>One group of category jobs\<close>

text \<open>
  C1, as the spec has it, asks that no addition job starts before every removal job
  has succeeded. On the test server that refuses to remove category A, the edit of
  \<open>{A, B}\<close> to \<open>{B, C}\<close> starts the addition of C all the same, and the update then
  fails with the error of the removal.
\<close>

theorem removal_failure_after_additions_started:
  "run_job test_env_failing_removal test_context (RemoveCategory (Some (JNum 7)) (JStr ''A'')) =
     Some (Error ''remove failed'') \<and>
   executeUpdate test_env_failing_removal [test_update] test_context =
     ([Start (RemoveCategory (Some (JNum 7)) (JStr ''A'')),
       Start (AddCategory (Some (JNum 7)) (JStr ''C''))],
      Inl (Error ''remove failed''))"
  by (simp add: executeUpdate_def update_categories_def start_category_jobs_def Let_def
      test_env_failing_removal_def test_env_def test_update_def test_context_def)

text \<open>
  C1, amended. When \<open>categories\<close> was edited, the update starts every removal job and
  then every addition job, whatever their outcomes are, and awaits them as one group.
  When all of them succeed the PATCH request follows. When any of them fails, a removal
  or an addition, the update stops with the error of a failed job and the PATCH request
  is not issued.
\<close>

theorem category_jobs_one_group:
  assumes edited: "''categories'' \<in> set (updatedFields u)"
    and prev: "map_of (previousValue u) ''categories'' = Some (JArr previous)"
    and new: "map_of (newValue u) ''categories'' = Some (JArr new)"
    and removals: "removals =
      map (RemoveCategory (map_of (newValue u) ''packId''))
        (filter (\<lambda>c. \<not> list_ex (same_value_zero c) new) previous)"
    and additions: "additions =
      map (AddCategory (map_of (newValue u) ''packId''))
        (filter (\<lambda>c. \<not> list_ex (same_value_zero c) previous) new)"
  shows
    "((\<forall>job\<in>set (removals @ additions). run_job E ctx job = None) \<longrightarrow>
        fst (executeUpdate E (u # us) ctx) =
          map Start removals @ map Start additions @ [Fetch (patch_request E ctx u)]) \<and>
     ((\<exists>job\<in>set (removals @ additions). run_job E ctx job \<noteq> None) \<longrightarrow>
        fst (executeUpdate E (u # us) ctx) = map Start removals @ map Start additions \<and>
        (\<exists>job\<in>set (removals @ additions). \<exists>e.
           run_job E ctx job = Some e \<and> snd (executeUpdate E (u # us) ctx) = Inl e))"
proof -
  let ?jobs = "removals @ additions"
  have cats: "update_categories E ctx u = (?jobs, Promise_all (map (run_job E ctx) ?jobs))"
    using update_categories_arrays [OF edited prev new] removals additions by simp
  show ?thesis
  proof (intro conjI impI)
    assume "\<forall>job\<in>set ?jobs. run_job E ctx job = None"
    then have "Promise_all (map (run_job E ctx) ?jobs) = None"
      by (simp only: Promise_all_map_None)
    with cats show "fst (executeUpdate E (u # us) ctx) =
          map Start removals @ map Start additions @ [Fetch (patch_request E ctx u)]"
      by (simp add: executeUpdate_run)
  next
    assume "\<exists>job\<in>set ?jobs. run_job E ctx job \<noteq> None"
    then have "Promise_all (map (run_job E ctx) ?jobs) \<noteq> None"
      unfolding Promise_all_map_None by auto
    then obtain e where e: "Promise_all (map (run_job E ctx) ?jobs) = Some e" by blast
    from Promise_all_map_Some [OF e] obtain job where
      job: "job \<in> set ?jobs" "run_job E ctx job = Some e" by blast
    from cats e have run: "executeUpdate E (u # us) ctx = (map Start ?jobs, Inl e)"
      by (simp add: executeUpdate_run)
    from run show "fst (executeUpdate E (u # us) ctx) = map Start removals @ map Start additions"
      by simp
    from run job show "\<exists>job\<in>set ?jobs. \<exists>e.
           run_job E ctx job = Some e \<and> snd (executeUpdate E (u # us) ctx) = Inl e"
      by auto
  qed
qed

theorem category_jobs_one_group_witness:
  "''categories'' \<in> set (updatedFields test_update) \<and>
   run_job test_env_failing_removal test_context (RemoveCategory (Some (JNum 7)) (JStr ''A'')) =
     Some (Error ''remove failed'') \<and>
   fst (executeUpdate test_env_failing_removal [test_update] test_context) =
     [Start (RemoveCategory (Some (JNum 7)) (JStr ''A'')),
      Start (AddCategory (Some (JNum 7)) (JStr ''C''))] \<and>
   snd (executeUpdate test_env_failing_removal [test_update] test_context) =
     Inl (Error ''remove failed'') \<and>
   fst (executeUpdate test_env [test_update] test_context) =
     [Start (RemoveCategory (Some (JNum 7)) (JStr ''A'')),
      Start (AddCategory (Some (JNum 7)) (JStr ''C'')),
      Fetch (patch_request test_env test_context test_update)]"
  using category_jobs_one_group [where E = test_env_failing_removal and ctx = test_context
      and u = test_update and us = "[]" and previous = "[JStr ''A'', JStr ''B'']"
      and new = "[JStr ''B'', JStr ''C'']"
      and removals = "[RemoveCategory (Some (JNum 7)) (JStr ''A'')]"
      and additions = "[AddCategory (Some (JNum 7)) (JStr ''C'')]"]
    category_jobs_one_group [where E = test_env and ctx = test_context
      and u = test_update and us = "[]" and previous = "[JStr ''A'', JStr ''B'']"
      and new = "[JStr ''B'', JStr ''C'']"
      and removals = "[RemoveCategory (Some (JNum 7)) (JStr ''A'')]"
      and additions = "[AddCategory (Some (JNum 7)) (JStr ''C'')]"]
  by (simp add: test_update_def test_env_def test_env_failing_removal_def)

section \<open>The category jobs of an update\<close>

lemma count_list_Start:
  "count_list (map Start jobs @ [Fetch req]) (Start j) = count_list jobs j"
  "count_list (map Start jobs) (Start j) = count_list jobs j"
  by (induction jobs) auto

lemma executeUpdate_count_Start:
  "count_list (fst (executeUpdate E (u # us) ctx)) (Start j) =
   count_list (fst (update_categories E ctx u)) j"
  by (simp add: executeUpdate_run count_list_Start split: prod.splits option.splits)

lemma list_ex_same_value_zero_JStr:
  "list_ex (same_value_zero (JStr c)) (map JStr ys) \<longleftrightarrow> c \<in> set ys"
  by (induction ys) auto

lemma filter_map_JStr:
  "filter (\<lambda>c. \<not> list_ex (same_value_zero c) (map JStr ys)) (map JStr xs) =
   map JStr (filter (\<lambda>c. c \<notin> set ys) xs)"
  by (induction xs) (auto simp: list_ex_same_value_zero_JStr)

lemma count_list_removals:
  "count_list (map (RemoveCategory p) xs @ map (AddCategory p) ys) (RemoveCategory q c) =
     (if q = p then count_list xs c else 0)"
  "count_list (map (RemoveCategory p) xs @ map (AddCategory p) ys) (AddCategory q c) =
     (if q = p then count_list ys c else 0)"
  by (induction xs; induction ys; auto)+

lemma count_list_map_JStr:
  "distinct xs \<Longrightarrow>
   count_list (map JStr xs) category = (if \<exists>c. category = JStr c \<and> c \<in> set xs then 1 else 0)"
  by (induction xs) auto

lemma update_categories_strings:
  assumes prev: "map_of (previousValue u) ''categories'' = Some (JArr (map JStr previous))"
    and new: "map_of (newValue u) ''categories'' = Some (JArr (map JStr new))"
    and edited: "set previous \<noteq> set new \<longrightarrow> ''categories'' \<in> set (updatedFields u)"
  shows "fst (update_categories E ctx u) =
     map (RemoveCategory (map_of (newValue u) ''packId''))
        (map JStr (filter (\<lambda>c. c \<notin> set new) previous)) @
     map (AddCategory (map_of (newValue u) ''packId''))
        (map JStr (filter (\<lambda>c. c \<notin> set previous) new))"
proof (cases "''categories'' \<in> set (updatedFields u)")
  case True
  then show ?thesis
    by (simp add: update_categories_def start_category_jobs_arrays [OF prev new]
        filter_map_JStr)
next
  case False
  with edited have eq: "set previous = set new" by blast
  then have "filter (\<lambda>c. c \<notin> set new) previous = []" "filter (\<lambda>c. c \<notin> set previous) new = []"
    by (simp_all add: filter_empty_conv)
  with False show ?thesis by (simp add: update_categories_def)
qed

lemma count_list_category_jobs:
  assumes "distinct xs" "distinct ys"
  shows "count_list (map (RemoveCategory p) (map JStr xs) @ map (AddCategory p) (map JStr ys))
           (RemoveCategory q category) =
         (if q = p \<and> (\<exists>c. category = JStr c \<and> c \<in> set xs) then 1 else 0)"
    and "count_list (map (RemoveCategory p) (map JStr xs) @ map (AddCategory p) (map JStr ys))
           (AddCategory q category) =
         (if q = p \<and> (\<exists>c. category = JStr c \<and> c \<in> set ys) then 1 else 0)"
  unfolding count_list_removals count_list_map_JStr [OF assms(1)] count_list_map_JStr [OF assms(2)]
  by auto

text \<open>
  C2. Let the previous and the new value of the edited row hold the category sets
  \<open>previous\<close> and \<open>new\<close> (lists of names without repetition), where \<open>updatedFields\<close>
  names \<open>categories\<close> whenever the two sets differ. Then the update issues exactly one
  removal job for every category that is in \<open>previous\<close> and not in \<open>new\<close>, exactly one
  addition job for every category that is in \<open>new\<close> and not in \<open>previous\<close>, each for the
  Pack of the row, and no other category job: a category in both sets, or in neither,
  has none.
\<close>

theorem category_diff_jobs:
  assumes prev: "map_of (previousValue u) ''categories'' = Some (JArr (map JStr previous))"
    and new: "map_of (newValue u) ''categories'' = Some (JArr (map JStr new))"
    and sets: "distinct previous" "distinct new"
    and edited: "set previous \<noteq> set new \<longrightarrow> ''categories'' \<in> set (updatedFields u)"
  shows
    "count_list (fst (executeUpdate E (u # us) ctx)) (Start (RemoveCategory packId category)) =
       (if packId = map_of (newValue u) ''packId'' \<and>
           (\<exists>c. category = JStr c \<and> c \<in> set previous \<and> c \<notin> set new)
        then 1 else 0) \<and>
     count_list (fst (executeUpdate E (u # us) ctx)) (Start (AddCategory packId category)) =
       (if packId = map_of (newValue u) ''packId'' \<and>
           (\<exists>c. category = JStr c \<and> c \<in> set new \<and> c \<notin> set previous)
        then 1 else 0)"
proof -
  from sets have d: "distinct (filter (\<lambda>c. c \<notin> set new) previous)"
    "distinct (filter (\<lambda>c. c \<notin> set previous) new)" by simp_all
  show ?thesis
    unfolding executeUpdate_count_Start update_categories_strings [OF prev new edited]
      count_list_category_jobs [OF d]
    by auto
qed

theorem category_diff_jobs_witness:
  "map_of (previousValue test_update) ''categories'' = Some (JArr (map JStr [''A'', ''B''])) \<and>
   map_of (newValue test_update) ''categories'' = Some (JArr (map JStr [''B'', ''C''])) \<and>
   ''categories'' \<in> set (updatedFields test_update) \<and>
   count_list (fst (executeUpdate test_env [test_update] test_context))
     (Start (RemoveCategory (Some (JNum 7)) (JStr ''A''))) = 1 \<and>
   count_list (fst (executeUpdate test_env [test_update] test_context))
     (Start (AddCategory (Some (JNum 7)) (JStr ''C''))) = 1 \<and>
   count_list (fst (executeUpdate test_env [test_update] test_context))
     (Start (RemoveCategory (Some (JNum 7)) (JStr ''B''))) = 0 \<and>
   count_list (fst (executeUpdate test_env [test_update] test_context))
     (Start (AddCategory (Some (JNum 7)) (JStr ''B''))) = 0"
  using category_diff_jobs [of test_update "[''A'', ''B'']" "[''B'', ''C'']" test_env "[]"
      test_context "Some (JNum 7)" "JStr ''A''"]
    category_diff_jobs [of test_update "[''A'', ''B'']" "[''B'', ''C'']" test_env "[]"
      test_context "Some (JNum 7)" "JStr ''C''"]
    category_diff_jobs [of test_update "[''A'', ''B'']" "[''B'', ''C'']" test_env "[]"
      test_context "Some (JNum 7)" "JStr ''B''"]
  by (simp add: test_update_def)

section \<open>Unknown names\<close>

lemma start_jobs_unknown:
  "\<forall>k\<in>set known. map_of (MetadataTypes E) k \<noteq> None \<Longrightarrow>
   map_of (MetadataTypes E) key = None \<Longrightarrow>
   start_jobs E ctx (known @ key # rest) items = (map Callback known, Inl (ConfigurationError key))"
proof (induction known arbitrary: items)
  case Nil
  then show ?case by (simp add: getMetdataSettings_def)
next
  case (Cons k ks)
  from Cons.prems obtain s where s: "map_of (MetadataTypes E) k = Some s" by auto
  obtain its out where c: "callback s ctx items = (its, out)" by (cases "callback s ctx items")
  from Cons.prems have "\<forall>k\<in>set ks. map_of (MetadataTypes E) k \<noteq> None" by simp
  from Cons.IH [OF this Cons.prems(2), of its] s c show ?case
    by (simp add: getMetdataSettings_def)
qed

text \<open>
  C3, as the spec has it, asks that an unknown metadata key is rejected before any
  request is issued. SyncPacks looks the keys up after the page has been fetched: asked
  for the key \<open>bogus\<close>, which the registry does not have, it issues its request first
  and fails afterwards.
\<close>

theorem unknown_metadata_key_after_fetch:
  "map_of (MetadataTypes test_env) ''bogus'' = None \<and>
   SyncPacks test_env True False False (Some [''bogus'']) test_context =
     ([Fetch (GET (JStr ''https://coda.io/apis/v1/packs/listings?excludePublicPacks=false&excludeWorkspaceAcls=true&excludeIndividualAcls=true&limit=20''))],
      Inl (ConfigurationError ''bogus''))"
  by (simp add: SyncPacks_def SyncPacks_url_def listings_url_def continuation_url_def
      next_continuation_def allSettled_def GET_def getMetdataSettings_def Number_toString_def
      digit_def Let_def
      test_env_def test_context_def test_fetch_def test_registry_def
      test_withQueryParams_def add_field_def pack1_def pack2_def)

text \<open>
  C3, amended. An unknown dynamic property name is rejected with a user-visible error
  before anything is fetched: \<open>propertyOptions\<close> issues no request and calls no helper.
  An unknown metadata key given to SyncPacks is rejected with ConfigurationError only
  after the page has been fetched and its items normalised, and after the callbacks of
  the keys that come before it in the list have been started; the keys after it are not
  looked at.
\<close>

theorem unknown_names_rejected:
  "(propertyName ctx \<noteq> ''categories'' \<longrightarrow>
      propertyOptions E ctx =
        ([], Inl (UserVisibleError (''Unknown property: '' @ propertyName ctx)))) \<and>
   (fetch E (GET (SyncPacks_url E includePublished includeWorkspace includePrivate ctx)) =
      Inr response_body \<and>
    get_prop response_body ''items'' = Inr (Some (JArr its)) \<and>
    (\<forall>k\<in>set known. map_of (MetadataTypes E) k \<noteq> None) \<and>
    map_of (MetadataTypes E) key = None \<longrightarrow>
      SyncPacks E includePublished includeWorkspace includePrivate
        (Some (known @ key # rest)) ctx =
        (Fetch (GET (SyncPacks_url E includePublished includeWorkspace includePrivate ctx)) #
           map Callback known,
         Inl (ConfigurationError key)))"
proof (intro conjI impI)
  assume "propertyName ctx \<noteq> ''categories''"
  then show "propertyOptions E ctx =
        ([], Inl (UserVisibleError (''Unknown property: '' @ propertyName ctx)))"
    by (simp add: propertyOptions_def)
next
  assume a: "fetch E (GET (SyncPacks_url E includePublished includeWorkspace includePrivate ctx)) =
      Inr response_body \<and>
    get_prop response_body ''items'' = Inr (Some (JArr its)) \<and>
    (\<forall>k\<in>set known. map_of (MetadataTypes E) k \<noteq> None) \<and>
    map_of (MetadataTypes E) key = None"
  then obtain link where link: "get_prop response_body ''nextPageLink'' = Inr link"
    using get_prop_other by blast
  from a have jobs: "start_jobs E ctx (known @ key # rest) (map (formatItem E ctx) its) =
      (map Callback known, Inl (ConfigurationError key))"
    by (simp add: start_jobs_unknown)
  from a link show "SyncPacks E includePublished includeWorkspace includePrivate
        (Some (known @ key # rest)) ctx =
        (Fetch (GET (SyncPacks_url E includePublished includeWorkspace includePrivate ctx)) #
           map Callback known,
         Inl (ConfigurationError key))"
    by (simp add: SyncPacks_page jobs)
qed

theorem unknown_names_rejected_witness:
  "propertyOptions test_env (test_context\<lparr>propertyName := ''name''\<rparr>) =
     ([], Inl (UserVisibleError ''Unknown property: name'')) \<and>
   map_of (MetadataTypes test_env) ''versions'' \<noteq> None \<and>
   map_of (MetadataTypes test_env) ''bogus'' = None \<and>
   SyncPacks test_env True False False (Some [''versions'', ''bogus'', ''files'']) test_context =
     ([Fetch (GET (SyncPacks_url test_env True False False test_context)),
       Callback ''versions''],
      Inl (ConfigurationError ''bogus''))"
  using unknown_names_rejected [where E = test_env
      and ctx = "test_context\<lparr>propertyName := ''name''\<rparr>"]
    unknown_names_rejected [where E = test_env and ctx = test_context
      and includePublished = True and includeWorkspace = False and includePrivate = False
      and response_body =
        "JObj [(''items'', JArr [pack1, pack2]), (''nextPageLink'', JStr ''page2'')]"
      and its = "[pack1, pack2]" and known = "[''versions'']" and key = "''bogus''"
      and rest = "[''files'']"]
  by (simp add: propertyOptions_def SyncPacks_def SyncPacks_url_def listings_url_def continuation_url_def
      next_continuation_def allSettled_def GET_def getMetdataSettings_def Number_toString_def
      digit_def Let_def
      test_env_def test_context_def test_fetch_def test_registry_def
      test_withQueryParams_def add_field_def pack1_def pack2_def)

section \<open>The continuation of a page\<close>






section \<open>The URL of a page\<close>

lemma no_Fetch_left: "filter is_Fetch evs = [] \<Longrightarrow> Fetch req \<notin> set evs"
  by (induction evs) (auto split: if_splits)

text \<open>
  C5. The first thing a run of SyncPacks does is its one request, and the run has no
  other request of its own. When the continuation carries a next-page token (a truthy
  \<open>url\<close>), the request is a GET whose URL is that token as it stands, whatever the
  three flags are; otherwise it is a GET of the listings endpoint of the host with
  \<open>excludePublicPacks = \<not> includePublished\<close>,
  \<open>excludeWorkspaceAcls = \<not> includeWorkspace\<close>,
  \<open>excludeIndividualAcls = \<not> includePrivate\<close> and \<open>limit = 20\<close>.
\<close>

theorem SyncPacks_fetch_url:
  "(sync_continuation ctx = Some c \<and> map_of c ''url'' = Some token \<and> truthy (Some token) \<longrightarrow>
      (\<exists>evs. fst (SyncPacks E includePublished includeWorkspace includePrivate metdata ctx) =
                Fetch \<lparr>method = ''GET'', url = token, headers = [], body = None,
                       disableAuthentication = False\<rparr> # evs \<and>
              (\<forall>req. Fetch req \<notin> set evs))) \<and>
   (\<not> truthy (case sync_continuation ctx of None \<Rightarrow> None | Some c \<Rightarrow> map_of c ''url'') \<longrightarrow>
      (\<exists>evs. fst (SyncPacks E includePublished includeWorkspace includePrivate metdata ctx) =
                Fetch \<lparr>method = ''GET'',
                       url = JStr
                         (withQueryParams E
                            (joinUrl E [protocolAndHost ctx, ''apis/v1/packs/listings''])
                            [(''excludePublicPacks'', JBool (\<not> includePublished)),
                             (''excludeWorkspaceAcls'', JBool (\<not> includeWorkspace)),
                             (''excludeIndividualAcls'', JBool (\<not> includePrivate)),
                             (''limit'', JNum 20)]),
                       headers = [], body = None, disableAuthentication = False\<rparr> # evs \<and>
              (\<forall>req. Fetch req \<notin> set evs)))"
proof -
  have a: "sync_continuation ctx = Some c \<Longrightarrow> map_of c ''url'' = Some token \<Longrightarrow>
      truthy (Some token) \<Longrightarrow>
      SyncPacks_url E includePublished includeWorkspace includePrivate ctx = token"
    by (simp add: SyncPacks_url_def continuation_url_def)
  have b: "\<not> truthy (case sync_continuation ctx of None \<Rightarrow> None | Some c \<Rightarrow> map_of c ''url'') \<Longrightarrow>
      SyncPacks_url E includePublished includeWorkspace includePrivate ctx =
        JStr (withQueryParams E
                     (joinUrl E [protocolAndHost ctx, ''apis/v1/packs/listings''])
                     [(''excludePublicPacks'', JBool (\<not> includePublished)),
                      (''excludeWorkspaceAcls'', JBool (\<not> includeWorkspace)),
                      (''excludeIndividualAcls'', JBool (\<not> includePrivate)),
                      (''limit'', JNum 20)])"
    by (auto simp: SyncPacks_url_def continuation_url_def listings_url_def Let_def
        split: option.splits)
  from SyncPacks_events [of E includePublished includeWorkspace includePrivate metdata ctx]
  obtain evs where evs:
    "fst (SyncPacks E includePublished includeWorkspace includePrivate metdata ctx) =
       Fetch \<lparr>method = ''GET'',
              url = SyncPacks_url E includePublished includeWorkspace includePrivate ctx,
              headers = [], body = None, disableAuthentication = False\<rparr> # evs"
    "\<forall>req. Fetch req \<notin> set evs"
    using no_Fetch_left by (auto simp: GET_def)
  show ?thesis
  proof (intro conjI impI)
    assume "sync_continuation ctx = Some c \<and> map_of c ''url'' = Some token \<and> truthy (Some token)"
    with a evs show "\<exists>evs. fst (SyncPacks E includePublished includeWorkspace includePrivate metdata ctx) =
                Fetch \<lparr>method = ''GET'', url = token, headers = [], body = None,
                       disableAuthentication = False\<rparr> # evs \<and>
              (\<forall>req. Fetch req \<notin> set evs)"
      by auto
  next
    assume "\<not> truthy (case sync_continuation ctx of None \<Rightarrow> None | Some c \<Rightarrow> map_of c ''url'')"
    from b [OF this] evs
    show "\<exists>evs. fst (SyncPacks E includePublished includeWorkspace includePrivate metdata ctx) =
                Fetch \<lparr>method = ''GET'',
                       url = JStr
                         (withQueryParams E
                            (joinUrl E [protocolAndHost ctx, ''apis/v1/packs/listings''])
                            [(''excludePublicPacks'', JBool (\<not> includePublished)),
                             (''excludeWorkspaceAcls'', JBool (\<not> includeWorkspace)),
                             (''excludeIndividualAcls'', JBool (\<not> includePrivate)),
                             (''limit'', JNum 20)]),
                       headers = [], body = None, disableAuthentication = False\<rparr> # evs \<and>
              (\<forall>req. Fetch req \<notin> set evs)"
      by auto
  qed
qed

theorem SyncPacks_fetch_url_witness:
  "sync_continuation on_page2 = Some [(''url'', JStr ''page2'')] \<and>
   fst (SyncPacks test_env True False False None on_page2) =
     [Fetch \<lparr>method = ''GET'', url = JStr ''page2'', headers = [], body = None,
             disableAuthentication = False\<rparr>] \<and>
   fst (SyncPacks test_env False True True None on_page2) =
     [Fetch \<lparr>method = ''GET'', url = JStr ''page2'', headers = [], body = None,
             disableAuthentication = False\<rparr>] \<and>
   sync_continuation test_context = None \<and>
   fst (SyncPacks test_env True False False None test_context) =
     [Fetch \<lparr>method = ''GET'',
             url = JStr ''https://coda.io/apis/v1/packs/listings?excludePublicPacks=false&excludeWorkspaceAcls=true&excludeIndividualAcls=true&limit=20'',
             headers = [], body = None, disableAuthentication = False\<rparr>]"
  using SyncPacks_fetch_url [where ctx = on_page2 and c = "[(''url'', JStr ''page2'')]"
      and token = "JStr ''page2''" and E = test_env and includePublished = True
      and includeWorkspace = False and includePrivate = False and metdata = None]
    SyncPacks_fetch_url [where ctx = on_page2 and c = "[(''url'', JStr ''page2'')]"
      and token = "JStr ''page2''" and E = test_env and includePublished = False
      and includeWorkspace = True and includePrivate = True and metdata = None]
    SyncPacks_fetch_url [where ctx = test_context and E = test_env
      and includePublished = True and includeWorkspace = False and includePrivate = False
      and metdata = None]
  by (simp add: SyncPacks_def SyncPacks_url_def listings_url_def continuation_url_def
      next_continuation_def allSettled_def GET_def getMetdataSettings_def Number_toString_def
      digit_def Let_def
      test_env_def test_context_def test_fetch_def test_registry_def
      test_withQueryParams_def add_field_def pack1_def pack2_def pack3_def on_page2_def)

section \<open>Enrichment is best effort\<close>





section \<open>Lookup of a Pack that does not exist\<close>

text \<open>
  C7. When the listing that answers a Pack lookup has zero items (the field \<open>items\<close> is
  absent, null or the empty array), the formula Pack issues its one request and throws
  the user-visible error "Pack not found: ", followed by the ID or URL that was asked for;
  it neither returns a value nor fails with a TypeError.
\<close>

theorem Pack_not_found:
  assumes "getPackId E ctx packIdOrUrl = Inr packId"
    and "fetch E (Pack_request E ctx packId) = Inr response_body"
    and "get_prop response_body ''items'' = Inr items"
    and "items = None \<or> items = Some JNull \<or> items = Some (JArr [])"
  shows "Pack E packIdOrUrl ctx =
           ([Fetch (Pack_request E ctx packId)],
            Inl (UserVisibleError (''Pack not found: '' @ packIdOrUrl)))"
  using assms by (auto simp: Pack_def Let_def)

theorem Pack_not_found_witness:
  "fetch test_env (Pack_request test_env test_context (JStr ''0'')) =
     Inr (JObj [(''items'', JArr [])]) \<and>
   Pack test_env ''0'' test_context =
     ([Fetch (Pack_request test_env test_context (JStr ''0''))],
      Inl (UserVisibleError ''Pack not found: 0''))"
  using Pack_not_found [of test_env test_context "''0''" "JStr ''0''"
      "JObj [(''items'', JArr [])]" "Some (JArr [])"]
  by (simp add: test_env_def test_context_def test_fetch_def Pack_request_def GET_def
      test_withQueryParams_def)

section \<open>A batch of edits\<close>








section \<open>The source code of a Pack\<close>

lemma SourceCode_files_html:
  "snd (SourceCode_files E ctx packId ver) = Inr html \<Longrightarrow>
   \<exists>first_file rest code.
     getFiles E ctx packId ver = Inr (Some (first_file # rest)) \<and>
     fetch E (file_request first_file) = Inr code \<and>
     fst (SourceCode_files E ctx packId ver) = [GetFiles packId ver, Fetch (file_request first_file)] \<and>
     html = ''<pre>'' @ escape E code @ ''</pre>''"
  by (auto simp: SourceCode_files_def Let_def split: sum.splits option.splits list.splits)

text \<open>
  C10. For a lookup whose Pack ID resolves: (1) when the version is absent (or the
  empty string) the formula goes on with \<open>packVersion\<close> of the first entry of the
  version listing; (2) a version that is given is used as it is; (3) an absent or empty
  file listing throws the error "No source code found."; (4) otherwise the one request
  is a GET of the URL of the first file with authentication disabled, whatever files
  follow, and the result is the fetched code escaped and wrapped in a \<open>pre\<close> element;
  (5) every value the formula returns has this form, and the request that fetched the
  code is the only one of the run.
\<close>

theorem SourceCode_first_file:
  assumes "getPackId E ctx packIdOrUrl = Inr packId"
  shows
   "((version = None \<or> version = Some []) \<and> getVersions E ctx packId = Inr (v # vs) \<longrightarrow>
       SourceCode E packIdOrUrl version ctx =
         (GetVersions packId # fst (SourceCode_files E ctx packId (packVersion v)),
          snd (SourceCode_files E ctx packId (packVersion v)))) \<and>
    (version = Some ver \<and> ver \<noteq> [] \<longrightarrow>
       SourceCode E packIdOrUrl version ctx = SourceCode_files E ctx packId ver) \<and>
    (getFiles E ctx packId ver = Inr None \<or> getFiles E ctx packId ver = Inr (Some []) \<longrightarrow>
       SourceCode_files E ctx packId ver =
         ([GetFiles packId ver], Inl (Error ''No source code found.''))) \<and>
    (getFiles E ctx packId ver = Inr (Some (first_file # rest)) \<and>
     fetch E \<lparr>method = ''GET'', url = file_url first_file, headers = [], body = None,
              disableAuthentication = True\<rparr> = Inr code \<longrightarrow>
       SourceCode_files E ctx packId ver =
         ([GetFiles packId ver,
           Fetch \<lparr>method = ''GET'', url = file_url first_file, headers = [], body = None,
                  disableAuthentication = True\<rparr>],
          Inr (''<pre>'' @ escape E code @ ''</pre>''))) \<and>
    (snd (SourceCode E packIdOrUrl version ctx) = Inr html \<longrightarrow>
       (\<exists>req code evs.
          fst (SourceCode E packIdOrUrl version ctx) = evs @ [Fetch req] \<and>
          filter is_Fetch evs = [] \<and> disableAuthentication req \<and>
          fetch E req = Inr code \<and> html = ''<pre>'' @ escape E code @ ''</pre>''))"
proof (intro conjI impI)
  assume "(version = None \<or> version = Some []) \<and> getVersions E ctx packId = Inr (v # vs)"
  with assms show "SourceCode E packIdOrUrl version ctx =
         (GetVersions packId # fst (SourceCode_files E ctx packId (packVersion v)),
          snd (SourceCode_files E ctx packId (packVersion v)))"
    by (auto simp: SourceCode_def SourceCode_latest_def split: prod.splits)
next
  assume "version = Some ver \<and> ver \<noteq> []"
  with assms show "SourceCode E packIdOrUrl version ctx = SourceCode_files E ctx packId ver"
    by (simp add: SourceCode_def)
next
  assume "getFiles E ctx packId ver = Inr None \<or> getFiles E ctx packId ver = Inr (Some [])"
  then show "SourceCode_files E ctx packId ver =
         ([GetFiles packId ver], Inl (Error ''No source code found.''))"
    by (auto simp: SourceCode_files_def)
next
  assume "getFiles E ctx packId ver = Inr (Some (first_file # rest)) \<and>
     fetch E \<lparr>method = ''GET'', url = file_url first_file, headers = [], body = None,
              disableAuthentication = True\<rparr> = Inr code"
  then show "SourceCode_files E ctx packId ver =
         ([GetFiles packId ver,
           Fetch \<lparr>method = ''GET'', url = file_url first_file, headers = [], body = None,
                  disableAuthentication = True\<rparr>],
          Inr (''<pre>'' @ escape E code @ ''</pre>''))"
    by (simp add: SourceCode_files_def file_request_def)
next
  assume ok: "snd (SourceCode E packIdOrUrl version ctx) = Inr html"
  have auth: "\<And>first_file. disableAuthentication (file_request first_file)"
    by (simp add: file_request_def)
  show "\<exists>req code evs.
          fst (SourceCode E packIdOrUrl version ctx) = evs @ [Fetch req] \<and>
          filter is_Fetch evs = [] \<and> disableAuthentication req \<and>
          fetch E req = Inr code \<and> html = ''<pre>'' @ escape E code @ ''</pre>''"
  proof (cases "version = None \<or> version = Some []")
    case True
    with assms have latest: "SourceCode E packIdOrUrl version ctx = SourceCode_latest E ctx packId"
      by (auto simp: SourceCode_def)
    with ok obtain v vs where vs: "getVersions E ctx packId = Inr (v # vs)"
      and files: "snd (SourceCode_files E ctx packId (packVersion v)) = Inr html"
      by (auto simp: SourceCode_latest_def split: sum.splits list.splits prod.splits)
    from SourceCode_files_html [OF files] obtain first_file rest code where
      "fetch E (file_request first_file) = Inr code"
      "fst (SourceCode_files E ctx packId (packVersion v)) =
         [GetFiles packId (packVersion v), Fetch (file_request first_file)]"
      "html = ''<pre>'' @ escape E code @ ''</pre>''" by blast
    with latest vs auth [of first_file] show ?thesis
      by (intro exI [of _ "file_request first_file"] exI [of _ code]
          exI [of _ "[GetVersions packId, GetFiles packId (packVersion v)]"])
        (simp add: SourceCode_latest_def split: prod.splits)
  next
    case False
    then obtain ver' where ver': "version = Some ver'" "ver' \<noteq> []" by (cases version) auto
    with assms have eq: "SourceCode E packIdOrUrl version ctx = SourceCode_files E ctx packId ver'"
      by (simp add: SourceCode_def)
    with ok have "snd (SourceCode_files E ctx packId ver') = Inr html" by simp
    from SourceCode_files_html [OF this] obtain first_file rest code where
      "fetch E (file_request first_file) = Inr code"
      "fst (SourceCode_files E ctx packId ver') = [GetFiles packId ver', Fetch (file_request first_file)]"
      "html = ''<pre>'' @ escape E code @ ''</pre>''" by blast
    with eq auth [of first_file] show ?thesis
      by (intro exI [of _ "file_request first_file"] exI [of _ code]
          exI [of _ "[GetFiles packId ver']"]) simp
  qed
qed

theorem SourceCode_first_file_witness:
  "getPackId test_env test_context ''7'' = Inr (JStr ''7'') \<and>
   getVersions test_env test_context (JStr ''7'') =
     Inr [\<lparr>packVersion = ''2.0''\<rparr>, \<lparr>packVersion = ''1.0''\<rparr>] \<and>
   getFiles test_env test_context (JStr ''7'') ''2.0'' =
     Inr (Some [\<lparr>file_url = JStr ''file1''\<rparr>, \<lparr>file_url = JStr ''file2''\<rparr>]) \<and>
   SourceCode test_env ''7'' None test_context =
     ([GetVersions (JStr ''7''), GetFiles (JStr ''7'') ''2.0'',
       Fetch \<lparr>method = ''GET'', url = JStr ''file1'', headers = [], body = None,
              disableAuthentication = True\<rparr>],
      Inr ''<pre>if (a &lt; b) {}</pre>'') \<and>
   getFiles test_env test_context (JStr ''7'') ''1.0'' = Inr (Some []) \<and>
   SourceCode test_env ''7'' (Some ''1.0'') test_context =
     ([GetFiles (JStr ''7'') ''1.0''], Inl (Error ''No source code found.''))"
  using SourceCode_first_file [where E = test_env and ctx = test_context
      and packIdOrUrl = "''7''" and packId = "JStr ''7''" and version = None
      and v = "\<lparr>packVersion = ''2.0''\<rparr>" and vs = "[\<lparr>packVersion = ''1.0''\<rparr>]"
      and ver = "''2.0''" and first_file = "\<lparr>file_url = JStr ''file1''\<rparr>"
      and rest = "[\<lparr>file_url = JStr ''file2''\<rparr>]" and code = "JStr ''if (a < b) {}''"]
    SourceCode_first_file [where E = test_env and ctx = test_context
      and packIdOrUrl = "''7''" and packId = "JStr ''7''" and version = "Some ''1.0''"
      and ver = "''1.0''"]
  by (simp add: SourceCode_def SourceCode_latest_def SourceCode_files_def file_request_def
      test_env_def test_context_def test_fetch_def)

end
